theory Spec2Isabelle
  imports Main "HOL-Library.Word"
begin

section \<open>The registration API (registration-api/main.go)\<close>

text \<open>
  The program relays client registrations: the HTTP handler \<open>register\<close> decodes a
  protobuf \<open>C2SWrapper\<close>, \<open>processC2SWrapper\<close> normalises it, and the result is handed
  to the message accepter (the ZMQ socket). \<open>loadNewConfig\<close> and \<open>setupAuth\<close> re-read
  the configuration and re-install the socket's CURVE authentication.

  Conventions of the embedding:
  \<^item> a Go \<open>[]byte\<close> whose nil-ness the code looks at is a \<open>byte list option\<close>, with
    \<open>None\<close> the nil slice (\<open>len\<close> of nil is 0) and \<open>Some []\<close> an empty slice that
    is not nil; the one slice the code re-slices (the key file's bytes) carries its
    capacity instead;
  \<^item> a Go pointer is an \<open>option\<close>, \<open>None\<close> the nil pointer;
  \<^item> a returned \<open>(value, error)\<close> pair is a sum, \<open>Inl\<close> the error;
  \<^item> a run that may panic or exit the process is an \<open>exec\<close>;
  \<^item> functions of packages outside the repository (protobuf, net, toml, zmq4, the file
    system) are parameters of the model, collected in records.
  The logger's output is not part of the model; the one log statement whose argument can
  panic (the slice of the hex string in \<open>processC2SWrapper\<close>) keeps its bounds check.
\<close>

subsection \<open>Values\<close>

type_synonym byte = "8 word"
type_synonym bytes = "byte list"
type_synonym gobytes = "bytes option"

definition go_len :: "'a list option \<Rightarrow> nat" where
  "go_len s = (case s of None \<Rightarrow> 0 | Some xs \<Rightarrow> length xs)"

text \<open>An error value: one made by \<open>fmt.Errorf\<close> in this file, or one returned by a
  library call (its text).\<close>

datatype error = Errorf string | External string

text \<open>How a call ends: it returns, the process exits (\<open>logger.Fatalln\<close>), or it panics.\<close>

datatype 'a exec = Done 'a | Exit string | Panicked

definition regIDLen :: nat where
  "regIDLen = 16"

definition SecretLength :: nat where
  "SecretLength = 32"

subsection \<open>The wrapper message\<close>

text \<open>
  Modelled from the spec: the enumeration \<open>pb.RegistrationSource\<close> is declared in the
  protobuf package, outside the repository. The spec names an unset origin and the
  fixed \<open>API\<close> origin; \<open>OtherSource n\<close> stands for every other origin tag.
\<close>

datatype RegistrationSource = Unspecified | API | OtherSource nat

text \<open>
  Modelled from the spec: the message \<open>pb.C2SWrapper\<close>, also declared in the protobuf
  package: shared secret, optional source, optional address bytes and an opaque
  payload (a pointer to a message of type \<open>'p\<close>).
\<close>

record 'p C2SWrapper =
  SharedSecret :: gobytes
  RegistrationPayload :: "'p option"
  RegistrationSource :: "RegistrationSource option"
  RegistrationAddress :: gobytes

text \<open>The generated getters on a non-nil message: the field, or the type's zero value
  when the field is unset.\<close>

definition GetSharedSecret :: "'p C2SWrapper \<Rightarrow> gobytes" where
  "GetSharedSecret m = SharedSecret m"

definition GetRegistrationPayload :: "'p C2SWrapper \<Rightarrow> 'p option" where
  "GetRegistrationPayload m = RegistrationPayload m"

definition GetRegistrationSource :: "'p C2SWrapper \<Rightarrow> RegistrationSource" where
  "GetRegistrationSource m =
     (case RegistrationSource m of None \<Rightarrow> Unspecified | Some s \<Rightarrow> s)"

definition GetRegistrationAddress :: "'p C2SWrapper \<Rightarrow> gobytes" where
  "GetRegistrationAddress m = RegistrationAddress m"

subsection \<open>processC2SWrapper\<close>

text \<open>\<open>hex.EncodeToString\<close>: two lower-case hexadecimal digits for each byte.\<close>

definition hexdigit :: "nat \<Rightarrow> char" where
  "hexdigit n = ''0123456789abcdef'' ! (n mod 16)"

definition EncodeToString :: "bytes \<Rightarrow> string" where
  "EncodeToString bs =
     concat (map (\<lambda>b. [hexdigit (unat b div 16), hexdigit (unat b mod 16)]) bs)"

text \<open>The slice expression \<open>s[:n]\<close> on a string: Go panics unless \<open>n \<le> len(s)\<close>.\<close>

definition str_upto :: "string \<Rightarrow> nat \<Rightarrow> string option" where
  "str_upto s n = (if n \<le> length s then Some (take n s) else None)"

text \<open>
  The message \<open>payload\<close> that \<open>processC2SWrapper\<close> fills in (lines 149 to 169 of
  main.go) from an inbound message that passed both checks. The address test reads the
  source of the \<^emph>\<open>inbound\<close> message (\<open>clientToAPIProto.GetRegistrationSource()\<close>), not
  the source just stored in \<open>payload\<close>.
\<close>

definition c2sPayload :: "'p C2SWrapper \<Rightarrow> gobytes \<Rightarrow> 'p C2SWrapper" where
  "c2sPayload clientToAPIProto clientAddr =
     \<lparr> SharedSecret = GetSharedSecret clientToAPIProto,
       RegistrationPayload = GetRegistrationPayload clientToAPIProto,
       RegistrationSource =
         (if GetRegistrationSource clientToAPIProto = Unspecified then Some API
          else Some (GetRegistrationSource clientToAPIProto)),
       RegistrationAddress =
         (if GetRegistrationAddress clientToAPIProto = None
             \<or> GetRegistrationSource clientToAPIProto = API
          then clientAddr
          else GetRegistrationAddress clientToAPIProto) \<rparr>"

text \<open>
  \<open>processC2SWrapper\<close>: \<open>marshal\<close> is \<open>proto.Marshal\<close>, whose result the function
  returns as it is. The inbound message is a pointer, \<open>None\<close> when nil.
\<close>

definition processC2SWrapper ::
  "('p C2SWrapper \<Rightarrow> string + bytes) \<Rightarrow> 'p C2SWrapper option \<Rightarrow> gobytes
     \<Rightarrow> (error + bytes) exec" where
  "processC2SWrapper marshal clientToAPIProto clientAddr =
     (case clientToAPIProto of
        None \<Rightarrow> Done (Inl (Errorf ''unable to process nil C2SWrapper''))
      | Some m \<Rightarrow>
          if go_len (GetSharedSecret m) < regIDLen div 2
          then Done (Inl (Errorf ''shared secret undefined or insufficient length''))
          else
            let payload = c2sPayload m clientAddr in
            (case str_upto
                    (EncodeToString (case GetSharedSecret payload of None \<Rightarrow> [] | Some bs \<Rightarrow> bs))
                    regIDLen of
               None \<Rightarrow> Panicked
             | Some logged \<Rightarrow>
                 (case marshal payload of
                    Inl e \<Rightarrow> Done (Inl (External e))
                  | Inr out \<Rightarrow> Done (Inr out))))"

subsection \<open>The client address\<close>

text \<open>The request as the handler reads it: \<open>XForwardedFor\<close> is what
  \<open>r.Header.Get("X-Forwarded-For")\<close> returns (empty when the header is absent), \<open>Body\<close>
  is the result of \<open>ioutil.ReadAll(r.Body)\<close>.\<close>

record Request =
  Method :: string
  ContentLength :: int
  Body :: "string + bytes"
  XForwardedFor :: string
  RemoteAddr :: string

text \<open>\<open>strings.Split(s, ",")[0]\<close> is the text before the first comma (the whole string
  when there is none); \<open>strings.Trim(s, cutset)\<close> drops leading and trailing characters
  of the cut set.\<close>

definition SplitFirst :: "string \<Rightarrow> char \<Rightarrow> string" where
  "SplitFirst s sep = takeWhile (\<lambda>c. c \<noteq> sep) s"

definition Trim :: "string \<Rightarrow> string \<Rightarrow> string" where
  "Trim s cutset =
     rev (dropWhile (\<lambda>c. c \<in> set cutset) (rev (dropWhile (\<lambda>c. c \<in> set cutset) s)))"

definition getRemoteAddr :: "Request \<Rightarrow> string" where
  "getRemoteAddr r =
     (if XForwardedFor r \<noteq> []
      then Trim (SplitFirst (XForwardedFor r) (CHR '','')) [CHR '' '', CHR 0x09]
      else RemoteAddr r)"

text \<open>
  The functions of Go's \<open>net\<close> package that \<open>parseIP\<close> calls. \<open>ParseIP\<close> returns a
  \<open>net.IP\<close> (a byte slice), nil when the text is not an address.
\<close>

record netlib =
  SplitHostPort :: "string \<Rightarrow> string + (string \<times> string)"
  ParseIP :: "string \<Rightarrow> gobytes"

text \<open>\<open>parseIP\<close> returns a pointer to a \<open>net.IP\<close>: \<open>None\<close> is the nil pointer,
  \<open>Some None\<close> a pointer to a nil \<open>net.IP\<close>.\<close>

definition parseIP :: "netlib \<Rightarrow> string \<Rightarrow> gobytes option" where
  "parseIP lib addrPort =
     (let direct = (case ParseIP lib addrPort of None \<Rightarrow> None | Some ip \<Rightarrow> Some (Some ip)) in
      case SplitHostPort lib addrPort of
        Inl err \<Rightarrow> direct
      | Inr (host, port) \<Rightarrow> if host = [] then direct else Some (ParseIP lib host))"

text \<open>\<open>net.IP.To16\<close>: a 4-byte address is mapped into the 16-byte form, a 16-byte
  address is returned as it is, anything else (the nil address too) gives nil.\<close>

definition v4InV6Prefix :: bytes where
  "v4InV6Prefix = [0, 0, 0, 0, 0, 0, 0, 0, 0, 0, 0xff, 0xff]"

definition To16 :: "gobytes \<Rightarrow> gobytes" where
  "To16 ip =
     (if go_len ip = 4 then Some (v4InV6Prefix @ (case ip of None \<Rightarrow> [] | Some bs \<Rightarrow> bs))
      else if go_len ip = 16 then ip
      else None)"

text \<open>Lines 104 to 108 of \<open>register\<close>: \<open>make([]byte, 16, 16)\<close>, replaced by
  \<open>clientAddr.To16()\<close> when the pointer \<open>parseIP\<close> returned is not nil.\<close>

definition clientAddrBytes :: "netlib \<Rightarrow> string \<Rightarrow> gobytes" where
  "clientAddrBytes lib requestIP =
     (case parseIP lib requestIP of
        None \<Rightarrow> Some (replicate 16 0)
      | Some clientAddr \<Rightarrow> To16 clientAddr)"

subsection \<open>The handler\<close>

text \<open>What the handler does to the outside, in order: a call of the message accepter,
  a status line, a body.\<close>

datatype event = Accept bytes | WriteHeader nat | WriteBody string

text \<open>\<open>http.Error(w, msg, code)\<close> writes the status and then the message and a newline.\<close>

definition httpError :: "string \<Rightarrow> nat \<Rightarrow> event list" where
  "httpError msg code = [WriteHeader code, WriteBody (msg @ [CHR 0x0A])]"

definition StatusNoContent :: nat where "StatusNoContent = 204"
definition StatusBadRequest :: nat where "StatusBadRequest = 400"
definition StatusMethodNotAllowed :: nat where "StatusMethodNotAllowed = 405"
definition StatusInternalServerError :: nat where "StatusInternalServerError = 500"

definition MinimumRequestLength :: int where
  "MinimumRequestLength = int SecretLength + 1"

text \<open>The server as the handler uses it: the protobuf codec, the \<open>net\<close> functions and
  the field \<open>messageAccepter\<close> (\<open>None\<close>: no error).\<close>

record 'p server =
  Unmarshal :: "bytes \<Rightarrow> string + 'p C2SWrapper"
  Marshal :: "'p C2SWrapper \<Rightarrow> string + bytes"
  net :: netlib
  messageAccepter :: "bytes \<Rightarrow> string option"

definition register :: "'p server \<Rightarrow> Request \<Rightarrow> event list exec" where
  "register s r =
     (let requestIP = getRemoteAddr r in
      if Method r \<noteq> ''POST'' then Done [WriteHeader StatusMethodNotAllowed]
      else if ContentLength r < MinimumRequestLength
      then Done (httpError ''Payload too small'' StatusBadRequest)
      else
        (case Body r of
           Inl err \<Rightarrow> Done (httpError ''Failed to read request body'' StatusBadRequest)
         | Inr body \<Rightarrow>
             (case Unmarshal s body of
                Inl err \<Rightarrow> Done (httpError ''Failed to decode protobuf body'' StatusBadRequest)
              | Inr payload \<Rightarrow>
                  (case processC2SWrapper (Marshal s) (Some payload)
                          (clientAddrBytes (net s) requestIP) of
                     Panicked \<Rightarrow> Panicked
                   | Exit msg \<Rightarrow> Exit msg
                   | Done (Inl err) \<Rightarrow> Done [WriteHeader StatusInternalServerError]
                   | Done (Inr zmqPayload) \<Rightarrow>
                       (case messageAccepter s zmqPayload of
                          Some err \<Rightarrow>
                            Done [Accept zmqPayload, WriteHeader StatusInternalServerError]
                        | None \<Rightarrow> Done [Accept zmqPayload, WriteHeader StatusNoContent])))))"

text \<open>The status codes and the accepter calls of a run.\<close>

fun statusCodes :: "event list \<Rightarrow> nat list" where
  "statusCodes [] = []"
| "statusCodes (WriteHeader c # es) = c # statusCodes es"
| "statusCodes (e # es) = statusCodes es"

fun accepted :: "event list \<Rightarrow> bytes list" where
  "accepted [] = []"
| "accepted (Accept m # es) = m # accepted es"
| "accepted (e # es) = accepted es"

section \<open>Configuration reload and authentication\<close>

subsection \<open>Configuration and slices with capacity\<close>

record config =
  APIPort :: "16 word"
  ZMQPort :: "16 word"
  PrivateKeyPath :: string
  AuthType :: string
  AuthVerbose :: bool
  StationPublicKeys :: "string list"
  logClientIP :: bool

text \<open>
  A byte slice as \<open>ioutil.ReadFile\<close> returns it: \<open>elems\<close> are its \<open>len\<close> elements,
  \<open>spare\<close> the rest of its backing array, so that \<open>cap = len + length spare\<close>.
  The slice expression \<open>a[:n]\<close> on a slice is bounded by the capacity, not the length
  (Go specification, Slice expressions: "For slices, the upper index bound is the slice
  capacity cap(a) rather than the length"); it panics when \<open>n\<close> exceeds the capacity
  and otherwise yields the first \<open>n\<close> bytes of the backing array.
\<close>

record slice =
  elems :: bytes
  spare :: bytes

definition slice_cap :: "slice \<Rightarrow> nat" where
  "slice_cap a = length (elems a) + length (spare a)"

definition slice_upto :: "slice \<Rightarrow> nat \<Rightarrow> bytes option" where
  "slice_upto a n = (if n \<le> slice_cap a then Some (take n (elems a @ spare a)) else None)"

subsection \<open>setupAuth and loadNewConfig\<close>

text \<open>
  What the outside gives to one run of \<open>loadNewConfig\<close> or \<open>setupAuth\<close>:
  \<open>DecodeFile\<close> is \<open>toml.DecodeFile\<close> on the configuration file, decoding into the
  configuration in memory; \<open>ReadFile\<close> is \<open>ioutil.ReadFile\<close>; the remaining fields are
  the functions of the zmq4 package that the code calls. The package is outside the
  repository: its authentication state is a value of some type \<open>'a\<close>, its socket a
  value of some type \<open>'s\<close>, and each function is a parameter, a failing call returning
  its error.
\<close>

record ('a, 's) world =
  DecodeFile :: "config \<Rightarrow> string + config"
  ReadFile :: "string \<Rightarrow> string + slice"
  Z85encode :: "bytes \<Rightarrow> string"
  AuthStop :: "'a \<Rightarrow> 'a"
  AuthSetVerbose :: "bool \<Rightarrow> 'a \<Rightarrow> 'a"
  AuthStart :: "'a \<Rightarrow> string + 'a"
  AuthAllow :: "string \<Rightarrow> string list \<Rightarrow> 'a \<Rightarrow> 'a"
  AuthCurveAdd :: "string \<Rightarrow> string list \<Rightarrow> 'a \<Rightarrow> 'a"
  ServerAuthCurve :: "string \<Rightarrow> string \<Rightarrow> 's \<Rightarrow> string + 's"

text \<open>The calls a run makes into the file system, the toml package and zmq4, in order.\<close>

datatype call =
    CallDecodeFile
  | CallAuthStop
  | CallReadFile string
  | CallZ85encode bytes
  | CallAuthSetVerbose bool
  | CallAuthStart
  | CallAuthAllow string "string list"
  | CallAuthCurveAdd string "string list"
  | CallServerAuthCurve string string

text \<open>The process: the configuration in memory, the authentication state of zmq4, the
  socket, and the calls made so far.\<close>

record ('a, 's) process =
  conf :: config
  auth :: 'a
  sock :: 's
  calls :: "call list"

text \<open>\<open>setupAuth\<close>, on the socket of the process. \<open>logger.Fatalln\<close> exits the process;
  the slice expression \<open>privkeyBytes[:32]\<close> may panic.\<close>

definition setupAuth :: "('a, 's) world \<Rightarrow> ('a, 's) process \<Rightarrow> ('a, 's) process exec" where
  "setupAuth w p =
     (if AuthType (conf p) = ''CURVE'' then
        (case ReadFile w (PrivateKeyPath (conf p)) of
           Inl err \<Rightarrow> Exit ''failed to get private key:''
         | Inr privkeyBytes \<Rightarrow>
             (case slice_upto privkeyBytes 32 of
                None \<Rightarrow> Panicked
              | Some keyBytes \<Rightarrow>
                  let privkey = Z85encode w keyBytes;
                      a1 = AuthSetVerbose w (AuthVerbose (conf p)) (auth p)
                  in
                  (case AuthStart w a1 of
                     Inl err \<Rightarrow> Exit ''failed to start zmq auth:''
                   | Inr a2 \<Rightarrow>
                       let a3 = AuthAllow w ''*'' [] a2;
                           a4 = AuthCurveAdd w ''*'' (StationPublicKeys (conf p)) a3
                       in
                       (case ServerAuthCurve w ''*'' privkey (sock p) of
                          Inl err \<Rightarrow> Exit ''failed to set up auth on zmq socket:''
                        | Inr sk \<Rightarrow>
                            Done (p\<lparr> auth := a4, sock := sk,
                                     calls := calls p @
                                       [CallReadFile (PrivateKeyPath (conf p)),
                                        CallZ85encode keyBytes,
                                        CallAuthSetVerbose (AuthVerbose (conf p)),
                                        CallAuthStart,
                                        CallAuthAllow ''*'' [],
                                        CallAuthCurveAdd ''*'' (StationPublicKeys (conf p)),
                                        CallServerAuthCurve ''*'' privkey] \<rparr>)))))
      else Done p)"

text \<open>\<open>loadNewConfig\<close>, between \<open>s.Lock()\<close> and the deferred \<open>s.Unlock()\<close>.\<close>

definition loadNewConfig :: "('a, 's) world \<Rightarrow> ('a, 's) process \<Rightarrow> ('a, 's) process exec" where
  "loadNewConfig w p =
     (case DecodeFile w (conf p) of
        Inl err \<Rightarrow> Exit ''failed to load config:''
      | Inr c \<Rightarrow>
          setupAuth w
            (p\<lparr> conf := c, auth := AuthStop w (auth p),
                calls := calls p @ [CallDecodeFile, CallAuthStop] \<rparr>))"

text \<open>The reload handler's loop, on the reload signals received so far: one world for
  each signal.\<close>

fun reloads :: "('a, 's) world list \<Rightarrow> ('a, 's) process \<Rightarrow> ('a, 's) process exec" where
  "reloads [] p = Done p"
| "reloads (w # ws) p =
     (case loadNewConfig w p of
        Done p' \<Rightarrow> reloads ws p'
      | Exit msg \<Rightarrow> Exit msg
      | Panicked \<Rightarrow> Panicked)"

subsection \<open>Authentication subsystems for the examples\<close>

text \<open>
  Modelled from the spec: an authentication state as the spec describes it, whether the
  subsystem is installed (\<open>started\<close>), a verbosity flag, and the allow policy of each
  domain by address (\<open>allowed\<close>) and by peer public key (\<open>curveKeys\<close>); and a socket,
  which records the domain and private key installed on it.
\<close>

record zauth =
  started :: bool
  verbose :: bool
  allowed :: "(string \<times> string) list"
  curveKeys :: "(string \<times> string) list"

record socket =
  curveServer :: "(string \<times> string) option"

text \<open>Modelled from the spec: a reset that discards what was installed and leaves the
  subsystem not installed.\<close>

definition zapStopDiscard :: "zauth \<Rightarrow> zauth" where
  "zapStopDiscard a = a\<lparr> started := False, allowed := [], curveKeys := [] \<rparr>"


text \<open>Modelled from the spec: the verbosity flag; the install, an error on a subsystem
  that is already installed; the two allow policies, which add to what is there; and the
  private key installed on the socket.\<close>

definition zapSetVerbose :: "bool \<Rightarrow> zauth \<Rightarrow> zauth" where
  "zapSetVerbose v a = a\<lparr> verbose := v \<rparr>"

definition zapStart :: "zauth \<Rightarrow> string + zauth" where
  "zapStart a =
     (if started a then Inl ''Auth is already running'' else Inr (a\<lparr> started := True \<rparr>))"

definition zapAllow :: "string \<Rightarrow> string list \<Rightarrow> zauth \<Rightarrow> zauth" where
  "zapAllow domain addresses a =
     a\<lparr> allowed := allowed a @ map (Pair domain) addresses \<rparr>"

definition zapCurveAdd :: "string \<Rightarrow> string list \<Rightarrow> zauth \<Rightarrow> zauth" where
  "zapCurveAdd domain pubkeys a =
     a\<lparr> curveKeys := curveKeys a @ map (Pair domain) pubkeys \<rparr>"

definition sockServerAuthCurve :: "string \<Rightarrow> string \<Rightarrow> socket \<Rightarrow> string + socket" where
  "sockServerAuthCurve domain secret_key sk =
     Inr (sk\<lparr> curveServer := Some (domain, secret_key) \<rparr>)"

text \<open>
  Modelled from the spec: when authentication is enabled (the subsystem is installed and
  the socket carries a private key) only a peer presenting one of the public keys
  allowed for the socket's domain is accepted; otherwise the transport is
  unauthenticated and accepts every peer.
\<close>

definition acceptsKey :: "zauth \<Rightarrow> socket \<Rightarrow> string \<Rightarrow> bool" where
  "acceptsKey a sk k =
     (case curveServer sk of
        None \<Rightarrow> True
      | Some (domain, secret_key) \<Rightarrow>
          if started a then (domain, k) \<in> set (curveKeys a) else True)"

subsection \<open>Example values\<close>

text \<open>A configuration; a world that decodes to a given configuration and reads a given
  key file, with hexadecimal encoding standing in for Z85 and the discarding reset; the
  same world with the reset that keeps the allow policies; and the process as it is
  before any authentication is installed.\<close>

abbreviation demoConfig :: "string \<Rightarrow> string list \<Rightarrow> config" where
  "demoConfig ty pubkeys \<equiv>
     \<lparr> APIPort = 8080, ZMQPort = 5591, PrivateKeyPath = ''/opt/conjure/privkey'',
       AuthType = ty, AuthVerbose = False, StationPublicKeys = pubkeys,
       logClientIP = False \<rparr>"

abbreviation demoWorld :: "config \<Rightarrow> slice \<Rightarrow> (zauth, socket) world" where
  "demoWorld c keyfile \<equiv>
     \<lparr> DecodeFile = (\<lambda>old. Inr c), ReadFile = (\<lambda>path. Inr keyfile),
       Z85encode = EncodeToString,
       AuthStop = zapStopDiscard, AuthSetVerbose = zapSetVerbose, AuthStart = zapStart,
       AuthAllow = zapAllow, AuthCurveAdd = zapCurveAdd,
       ServerAuthCurve = sockServerAuthCurve \<rparr>"


abbreviation demoProcess :: "config \<Rightarrow> (zauth, socket) process" where
  "demoProcess c \<equiv>
     \<lparr> conf = c,
       auth = \<lparr> started = False, verbose = False, allowed = [], curveKeys = [] \<rparr>,
       sock = \<lparr> curveServer = None \<rparr>,
       calls = [] \<rparr>"

section \<open>Properties of processC2SWrapper\<close>

lemma length_EncodeToString: "length (EncodeToString bs) = 2 * length bs"
  by (induction bs) (simp_all add: EncodeToString_def)

lemma str_upto_hex:
  "regIDLen div 2 \<le> length bs \<Longrightarrow>
   str_upto (EncodeToString bs) regIDLen = Some (take regIDLen (EncodeToString bs))"
  by (simp add: str_upto_def length_EncodeToString regIDLen_def)

lemma processC2SWrapper_accepted:
  assumes "regIDLen div 2 \<le> go_len (SharedSecret m)"
  shows "processC2SWrapper marshal (Some m) clientAddr =
           (case marshal (c2sPayload m clientAddr) of
              Inl e \<Rightarrow> Done (Inl (External e))
            | Inr out \<Rightarrow> Done (Inr out))"
proof -
  from assms obtain bs where bs: "SharedSecret m = Some bs" "regIDLen div 2 \<le> length bs"
    by (cases "SharedSecret m") (auto simp: go_len_def regIDLen_def)
  have "SharedSecret (c2sPayload m clientAddr) = Some bs"
    by (simp add: c2sPayload_def GetSharedSecret_def bs)
  with bs show ?thesis
    by (simp add: processC2SWrapper_def GetSharedSecret_def go_len_def str_upto_hex)
qed

lemma processC2SWrapper_rejected:
  assumes "go_len (SharedSecret m) < regIDLen div 2"
  shows "processC2SWrapper marshal (Some m) clientAddr =
           Done (Inl (Errorf ''shared secret undefined or insufficient length''))"
  using assms by (simp add: processC2SWrapper_def GetSharedSecret_def)

lemma processC2SWrapper_nil:
  "processC2SWrapper marshal None clientAddr =
     Done (Inl (Errorf ''unable to process nil C2SWrapper''))"
  by (simp add: processC2SWrapper_def)

lemma processC2SWrapper_returns:
  "\<exists>res. processC2SWrapper marshal w clientAddr = Done res"
proof (cases w)
  case None
  then show ?thesis by (simp add: processC2SWrapper_nil)
next
  case (Some m)
  show ?thesis
  proof (cases "go_len (SharedSecret m) < regIDLen div 2")
    case True
    with Some show ?thesis by (simp add: processC2SWrapper_rejected)
  next
    case False
    then have "regIDLen div 2 \<le> go_len (SharedSecret m)" by simp
    with Some show ?thesis
      by (simp add: processC2SWrapper_accepted split: sum.split)
  qed
qed

text \<open>
  C1, as the code has it. For an inbound message that passes both checks, the message
  that is serialised carries the caller's \<open>clientAddr\<close> when the inbound address is
  absent (nil) or the \<^emph>\<open>inbound\<close> source is \<open>API\<close>, and the inbound address
  otherwise. The test is on the inbound source, before defaulting: an inbound message
  with no source and an address of its own keeps that address.
\<close>

theorem processC2SWrapper_address:
  assumes "regIDLen div 2 \<le> go_len (SharedSecret m)"
  shows "processC2SWrapper marshal (Some m) clientAddr =
           (case marshal (c2sPayload m clientAddr) of
              Inl e \<Rightarrow> Done (Inl (External e))
            | Inr out \<Rightarrow> Done (Inr out))
         \<and> RegistrationAddress (c2sPayload m clientAddr) =
             (if RegistrationAddress m = None \<or> GetRegistrationSource m = API
              then clientAddr else RegistrationAddress m)"
  using assms
  by (simp add: processC2SWrapper_accepted c2sPayload_def GetRegistrationAddress_def)

text \<open>The theorem at an inbound message with an 8-byte secret, source \<open>API\<close> and an
  address of its own: the client address replaces it.\<close>

theorem processC2SWrapper_address_witness:
  "processC2SWrapper (\<lambda>p. Inr (case RegistrationAddress p of None \<Rightarrow> [] | Some a \<Rightarrow> a))
     (Some \<lparr> SharedSecret = Some [1, 2, 3, 4, 5, 6, 7, 8],
             RegistrationPayload = Some (),
             RegistrationSource = Some API,
             RegistrationAddress = Some [10, 0, 0, 1] \<rparr>)
     (Some [192, 0, 2, 7]) = Done (Inr [192, 0, 2, 7])"
  using processC2SWrapper_address
    [of "\<lparr> SharedSecret = Some [1, 2, 3, 4, 5, 6, 7, 8],
           RegistrationPayload = Some (),
           RegistrationSource = Some API,
           RegistrationAddress = Some [10, 0, 0, 1] \<rparr>"
        "\<lambda>p. Inr (case RegistrationAddress p of None \<Rightarrow> [] | Some a \<Rightarrow> a)"
        "Some [192, 0, 2, 7]"]
  by (simp add: go_len_def regIDLen_def GetRegistrationSource_def)

text \<open>
  C1 as the claim words it fails: with no inbound source the output source resolves to
  \<open>API\<close> by defaulting, and yet an inbound address is copied through instead of the
  caller's client address. The serialiser used here returns the address bytes of the
  message it is given.
\<close>

theorem processC2SWrapper_address_counterexample:
  "GetRegistrationSource
     (c2sPayload
        \<lparr> SharedSecret = Some [1, 2, 3, 4, 5, 6, 7, 8],
          RegistrationPayload = Some (),
          RegistrationSource = None,
          RegistrationAddress = Some [10, 0, 0, 1] \<rparr>
        (Some [192, 0, 2, 7])) = API
   \<and> processC2SWrapper (\<lambda>p. Inr (case RegistrationAddress p of None \<Rightarrow> [] | Some a \<Rightarrow> a))
       (Some \<lparr> SharedSecret = Some [1, 2, 3, 4, 5, 6, 7, 8],
               RegistrationPayload = Some (),
               RegistrationSource = None,
               RegistrationAddress = Some [10, 0, 0, 1] \<rparr>)
       (Some [192, 0, 2, 7]) = Done (Inr [10, 0, 0, 1])
   \<and> [10, 0, 0, 1] \<noteq> [192, 0, 2, 7 :: byte]"
  by (simp add: processC2SWrapper_def c2sPayload_def GetRegistrationSource_def
      GetRegistrationAddress_def GetSharedSecret_def GetRegistrationPayload_def
      go_len_def regIDLen_def str_upto_def length_EncodeToString)

text \<open>
  C2. A non-nil inbound message whose shared secret has at least \<open>regIDLen / 2\<close> bytes
  never panics and never fails validation: the function returns whatever
  \<open>proto.Marshal\<close> returns for the outbound message (the bytes when serialisation
  succeeds), and that message carries the inbound shared secret and payload unchanged.
\<close>

theorem processC2SWrapper_preserves:
  assumes "regIDLen div 2 \<le> go_len (SharedSecret m)"
  shows "processC2SWrapper marshal (Some m) clientAddr =
           (case marshal (c2sPayload m clientAddr) of
              Inl e \<Rightarrow> Done (Inl (External e))
            | Inr out \<Rightarrow> Done (Inr out))
         \<and> SharedSecret (c2sPayload m clientAddr) = SharedSecret m
         \<and> RegistrationPayload (c2sPayload m clientAddr) = RegistrationPayload m"
  using assms
  by (simp add: processC2SWrapper_accepted c2sPayload_def GetSharedSecret_def
      GetRegistrationPayload_def)

text \<open>The theorem with a serialiser that returns the secret followed by the payload
  (here a byte list itself).\<close>

theorem processC2SWrapper_preserves_witness:
  "processC2SWrapper
     (\<lambda>p. Inr ((case SharedSecret p of None \<Rightarrow> [] | Some a \<Rightarrow> a)
               @ (case RegistrationPayload p of None \<Rightarrow> [] | Some a \<Rightarrow> a)))
     (Some \<lparr> SharedSecret = Some [1, 2, 3, 4, 5, 6, 7, 8],
             RegistrationPayload = Some [0xAA, 0xBB :: byte],
             RegistrationSource = None,
             RegistrationAddress = None \<rparr>)
     (Some [192, 0, 2, 7]) = Done (Inr [1, 2, 3, 4, 5, 6, 7, 8, 0xAA, 0xBB])"
  using processC2SWrapper_preserves
    [of "\<lparr> SharedSecret = Some [1, 2, 3, 4, 5, 6, 7, 8],
           RegistrationPayload = Some [0xAA, 0xBB :: byte],
           RegistrationSource = None,
           RegistrationAddress = None \<rparr>"
        "\<lambda>p. Inr ((case SharedSecret p of None \<Rightarrow> [] | Some a \<Rightarrow> a)
                  @ (case RegistrationPayload p of None \<Rightarrow> [] | Some a \<Rightarrow> a))"
        "Some [192, 0, 2, 7]"]
  by (simp add: go_len_def regIDLen_def)

text \<open>
  C4. For an accepted inbound message the outbound source is always set: it is \<open>API\<close>
  when the inbound source is unset (absent, or the zero value \<open>Unspecified\<close>), and the
  inbound source otherwise.
\<close>

theorem processC2SWrapper_source:
  assumes "regIDLen div 2 \<le> go_len (SharedSecret m)"
  shows "processC2SWrapper marshal (Some m) clientAddr =
           (case marshal (c2sPayload m clientAddr) of
              Inl e \<Rightarrow> Done (Inl (External e))
            | Inr out \<Rightarrow> Done (Inr out))
         \<and> RegistrationSource (c2sPayload m clientAddr) =
             (if RegistrationSource m = None \<or> RegistrationSource m = Some Unspecified
              then Some API else RegistrationSource m)
         \<and> RegistrationSource (c2sPayload m clientAddr) \<noteq> None"
  using assms
  by (auto simp: processC2SWrapper_accepted c2sPayload_def GetRegistrationSource_def
      split: option.splits)

text \<open>The theorem at an inbound message with no source; the serialiser returns one byte
  that tells the source of the message it is given.\<close>

theorem processC2SWrapper_source_witness:
  "processC2SWrapper
     (\<lambda>p. Inr [if RegistrationSource p = Some API then 2 else 0])
     (Some \<lparr> SharedSecret = Some [1, 2, 3, 4, 5, 6, 7, 8],
             RegistrationPayload = Some (),
             RegistrationSource = None,
             RegistrationAddress = None \<rparr>)
     None = Done (Inr [2])"
  using processC2SWrapper_source
    [of "\<lparr> SharedSecret = Some [1, 2, 3, 4, 5, 6, 7, 8],
           RegistrationPayload = Some (),
           RegistrationSource = None,
           RegistrationAddress = None \<rparr>"
        "\<lambda>p. Inr [if RegistrationSource p = Some API then 2 else 0]"
        None]
  by (simp add: go_len_def regIDLen_def)

section \<open>Properties of the handler\<close>

lemma register_short_secret:
  assumes "Method r = ''POST''" and "\<not> ContentLength r < MinimumRequestLength"
    and "Body r = Inr body" and "Unmarshal s body = Inr m"
    and "go_len (SharedSecret m) < regIDLen div 2"
  shows "register s r = Done [WriteHeader StatusInternalServerError]"
  using assms by (simp add: register_def processC2SWrapper_rejected)

lemma register_no_accept_on_short_secret:
  assumes "Body r = Inr body" and "Unmarshal s body = Inr m"
    and "go_len (SharedSecret m) < regIDLen div 2"
  shows "\<exists>evs. register s r = Done evs \<and> accepted evs = []"
  using assms
  by (simp add: register_def processC2SWrapper_rejected httpError_def)

text \<open>
  C3. \<open>processC2SWrapper\<close> returns one of its own validation errors (made by
  \<open>fmt.Errorf\<close>, with no output bytes) exactly when the inbound message is nil or its
  shared secret has fewer than \<open>regIDLen / 2 = 8\<close> bytes; every other error it returns
  is the serialiser's. In the handler, a decoded message with such a short secret never
  reaches the message accepter: the run ends without a single accepter call.
\<close>

theorem processC2SWrapper_validation:
  "((\<exists>msg. processC2SWrapper marshal (w :: 'p C2SWrapper option) clientAddr
             = Done (Inl (Errorf msg)))
      \<longleftrightarrow> (case w of None \<Rightarrow> True | Some m \<Rightarrow> go_len (SharedSecret m) < regIDLen div 2))
   \<and> regIDLen div 2 = 8
   \<and> (\<forall>(s :: 'p server) r body m.
         Body r = Inr body \<and> Unmarshal s body = Inr m
           \<and> go_len (SharedSecret m) < regIDLen div 2
         \<longrightarrow> (\<exists>evs. register s r = Done evs \<and> accepted evs = []))"
proof (intro conjI allI impI)
  show "(\<exists>msg. processC2SWrapper marshal w clientAddr = Done (Inl (Errorf msg)))
      \<longleftrightarrow> (case w of None \<Rightarrow> True | Some m \<Rightarrow> go_len (SharedSecret m) < regIDLen div 2)"
  proof (cases w)
    case None
    then show ?thesis by (simp add: processC2SWrapper_nil)
  next
    case (Some m)
    show ?thesis
    proof (cases "go_len (SharedSecret m) < regIDLen div 2")
      case True
      with Some show ?thesis by (simp add: processC2SWrapper_rejected)
    next
      case False
      then have "regIDLen div 2 \<le> go_len (SharedSecret m)" by simp
      with Some False show ?thesis
        by (simp add: processC2SWrapper_accepted split: sum.split)
    qed
  qed
next
  show "regIDLen div 2 = 8" by (simp add: regIDLen_def)
next
  fix s :: "'p server" and r :: Request and body m
  assume "Body r = Inr body \<and> Unmarshal s body = Inr m
           \<and> go_len (SharedSecret m) < regIDLen div 2"
  then show "\<exists>evs. register s r = Done evs \<and> accepted evs = []"
    by (simp add: register_no_accept_on_short_secret)
qed

text \<open>The theorem at a POST request of 40 bytes whose decoded message has a 7-byte
  secret: a validation error, status 500 and no accepter call.\<close>

theorem processC2SWrapper_validation_witness:
  "(\<exists>msg. processC2SWrapper (\<lambda>p. Inr [])
            (Some \<lparr> SharedSecret = Some [1, 2, 3, 4, 5, 6, 7],
                    RegistrationPayload = Some (),
                    RegistrationSource = None,
                    RegistrationAddress = None \<rparr>)
            None = Done (Inl (Errorf msg)))
   \<and> (\<exists>evs. register
               \<lparr> Unmarshal = (\<lambda>b. Inr \<lparr> SharedSecret = Some (take 7 b),
                                        RegistrationPayload = Some (),
                                        RegistrationSource = None,
                                        RegistrationAddress = None \<rparr>),
                 Marshal = (\<lambda>p. Inr []),
                 net = \<lparr> SplitHostPort = (\<lambda>a. Inl ''missing port in address''),
                         ParseIP = (\<lambda>a. None) \<rparr>,
                 messageAccepter = (\<lambda>b. None) \<rparr>
               \<lparr> Method = ''POST'', ContentLength = 40, Body = Inr (replicate 40 7),
                 XForwardedFor = [], RemoteAddr = ''192.0.2.7:4000'' \<rparr> = Done evs
             \<and> accepted evs = [])"
proof -
  let ?m = "\<lparr> SharedSecret = Some [1, 2, 3, 4, 5, 6, 7 :: byte],
              RegistrationPayload = Some (),
              RegistrationSource = None,
              RegistrationAddress = None \<rparr>"
  let ?s = "\<lparr> Unmarshal = (\<lambda>b. Inr \<lparr> SharedSecret = Some (take 7 b),
                                     RegistrationPayload = Some (),
                                     RegistrationSource = None,
                                     RegistrationAddress = None \<rparr>),
              Marshal = (\<lambda>p. Inr []),
              net = \<lparr> SplitHostPort = (\<lambda>a. Inl ''missing port in address''),
                      ParseIP = (\<lambda>a. None) \<rparr>,
              messageAccepter = (\<lambda>b. None) \<rparr>"
  let ?r = "\<lparr> Method = ''POST'', ContentLength = 40, Body = Inr (replicate 40 (7 :: byte)),
              XForwardedFor = [], RemoteAddr = ''192.0.2.7:4000'' \<rparr>"
  note inst = processC2SWrapper_validation [of "\<lambda>p. Inr []" "Some ?m" None]
  have a: "\<exists>msg. processC2SWrapper (\<lambda>p. Inr []) (Some ?m) None = Done (Inl (Errorf msg))"
    using inst by (simp add: go_len_def regIDLen_def)
  have pre: "Body ?r = Inr (replicate 40 7) \<and> Unmarshal ?s (replicate 40 7) = Inr (?m\<lparr>SharedSecret := Some (replicate 7 7)\<rparr>)
       \<and> go_len (SharedSecret (?m\<lparr>SharedSecret := Some (replicate 7 7)\<rparr>)) < regIDLen div 2"
    by (simp add: go_len_def regIDLen_def)
  have b: "\<exists>evs. register ?s ?r = Done evs \<and> accepted evs = []"
    using inst pre by blast
  from a b show ?thesis by blast
qed

text \<open>
  C5. Every request ends with exactly one status line, chosen in this order: 405 when
  the method is not POST; 400 when the content length is below \<open>SecretLength + 1 = 33\<close>,
  when the body cannot be read, or when it does not decode; 500 when
  \<open>processC2SWrapper\<close> returns an error or the message accepter does; 204 otherwise.
  A 204 run is the accepter call, which returned no error, followed by the status line,
  and it writes no body.
\<close>

theorem register_status:
  "\<exists>evs code.
     register s r = Done evs \<and> statusCodes evs = [code]
     \<and> code =
         (if Method r \<noteq> ''POST'' then 405
          else if ContentLength r < 33 then 400
          else case Body r of
            Inl e \<Rightarrow> 400
          | Inr body \<Rightarrow>
              (case Unmarshal s body of
                 Inl e \<Rightarrow> 400
               | Inr m \<Rightarrow>
                   (case processC2SWrapper (Marshal s) (Some m)
                           (clientAddrBytes (net s) (getRemoteAddr r)) of
                      Done (Inr out) \<Rightarrow>
                        (case messageAccepter s out of None \<Rightarrow> 204 | Some e \<Rightarrow> 500)
                    | _ \<Rightarrow> 500)))
     \<and> (if code = 204
        then \<exists>out. evs = [Accept out, WriteHeader 204] \<and> messageAccepter s out = None
        else code \<in> {400, 405, 500})"
proof -
  let ?p = "\<lambda>m. processC2SWrapper (Marshal s) (Some m)
                  (clientAddrBytes (net s) (getRemoteAddr r))"
  have ret: "\<And>m. \<exists>res. ?p m = Done res"
    by (rule processC2SWrapper_returns)
  show ?thesis
  proof (cases "Method r \<noteq> ''POST''")
    case True
    then show ?thesis
      by (simp add: register_def StatusMethodNotAllowed_def)
  next
    case post: False
    show ?thesis
    proof (cases "ContentLength r < 33")
      case True
      with post show ?thesis
        by (simp add: register_def MinimumRequestLength_def SecretLength_def
            httpError_def StatusBadRequest_def)
    next
      case long: False
      show ?thesis
      proof (cases "Body r")
        case (Inl e)
        with post long show ?thesis
          by (simp add: register_def MinimumRequestLength_def SecretLength_def
              httpError_def StatusBadRequest_def)
      next
        case body: (Inr body)
        show ?thesis
        proof (cases "Unmarshal s body")
          case (Inl e)
          with post long body show ?thesis
            by (simp add: register_def MinimumRequestLength_def SecretLength_def
                httpError_def StatusBadRequest_def)
        next
          case dec: (Inr m)
          from ret [of m] obtain res where res: "?p m = Done res" by blast
          show ?thesis
          proof (cases res)
            case (Inl e)
            with post long body dec res show ?thesis
              by (simp add: register_def MinimumRequestLength_def SecretLength_def
                  StatusInternalServerError_def)
          next
            case out: (Inr out)
            show ?thesis
            proof (cases "messageAccepter s out")
              case None
              with post long body dec res out show ?thesis
                by (simp add: register_def MinimumRequestLength_def SecretLength_def
                    StatusNoContent_def)
            next
              case (Some e)
              with post long body dec res out show ?thesis
                by (simp add: register_def MinimumRequestLength_def SecretLength_def
                    StatusInternalServerError_def)
            qed
          qed
        qed
      qed
    qed
  qed
qed

text \<open>The theorem at the spec's scenario: a POST of 40 bytes whose message has a
  32-byte secret and neither source nor address, from \<open>203.0.113.5\<close>; the run is the
  accepter call followed by 204.\<close>

theorem register_status_witness:
  "\<exists>out. register
           \<lparr> Unmarshal = (\<lambda>b. Inr \<lparr> SharedSecret = Some (take 32 b),
                                    RegistrationPayload = Some (),
                                    RegistrationSource = None,
                                    RegistrationAddress = None \<rparr>),
             Marshal = (\<lambda>p. Inr (case RegistrationAddress p of None \<Rightarrow> [] | Some a \<Rightarrow> a)),
             net = \<lparr> SplitHostPort = (\<lambda>a. Inl ''missing port in address''),
                     ParseIP = (\<lambda>a. if a = ''203.0.113.5'' then Some [203, 0, 113, 5]
                                     else None) \<rparr>,
             messageAccepter = (\<lambda>b. None) \<rparr>
           \<lparr> Method = ''POST'', ContentLength = 40, Body = Inr (replicate 40 7),
             XForwardedFor = ''203.0.113.5, 198.51.100.1'', RemoteAddr = ''192.0.2.7:4000'' \<rparr>
         = Done [Accept out, WriteHeader 204]"
proof -
  let ?s = "\<lparr> Unmarshal = (\<lambda>b. Inr \<lparr> SharedSecret = Some (take 32 b),
                                     RegistrationPayload = Some (),
                                     RegistrationSource = None,
                                     RegistrationAddress = None \<rparr>),
              Marshal = (\<lambda>p. Inr (case RegistrationAddress p of None \<Rightarrow> [] | Some a \<Rightarrow> a)),
              net = \<lparr> SplitHostPort = (\<lambda>a. Inl ''missing port in address''),
                      ParseIP = (\<lambda>a. if a = ''203.0.113.5'' then Some [203, 0, 113, 5 :: byte]
                                      else None) \<rparr>,
              messageAccepter = (\<lambda>b. None) \<rparr>"
  let ?r = "\<lparr> Method = ''POST'', ContentLength = 40, Body = Inr (replicate 40 (7 :: byte)),
              XForwardedFor = ''203.0.113.5, 198.51.100.1'', RemoteAddr = ''192.0.2.7:4000'' \<rparr>"
  let ?m = "\<lparr> SharedSecret = Some (replicate 32 (7 :: byte)),
              RegistrationPayload = Some (),
              RegistrationSource = None,
              RegistrationAddress = None \<rparr>"
  have proc: "\<exists>out. processC2SWrapper (Marshal ?s) (Some ?m)
                 (clientAddrBytes (net ?s) (getRemoteAddr ?r)) = Done (Inr out)"
    by (simp add: processC2SWrapper_accepted go_len_def regIDLen_def)
  from register_status [of ?s ?r] obtain evs and code :: nat where
    run: "register ?s ?r = Done evs"
    and code: "code =
         (case processC2SWrapper (Marshal ?s) (Some ?m)
                 (clientAddrBytes (net ?s) (getRemoteAddr ?r)) of
            Done (Inr out) \<Rightarrow> (case messageAccepter ?s out of None \<Rightarrow> 204 | Some e \<Rightarrow> 500)
          | _ \<Rightarrow> 500)"
    and shape: "if code = 204
        then \<exists>out. evs = [Accept out, WriteHeader 204] \<and> messageAccepter ?s out = None
        else code \<in> {400, 405, 500}"
    by auto
  from proc code have "code = 204" by auto
  with shape obtain out where "evs = [Accept out, WriteHeader 204]" by auto
  with run show ?thesis by blast
qed

section \<open>The client address handed to processC2SWrapper\<close>

text \<open>Where the address text parses: the pointer is not nil, and a 4-byte or 16-byte
  \<open>net.IP\<close> becomes 16 bytes.\<close>

lemma go_len_To16:
  "go_len ip = 4 \<or> go_len ip = 16 \<Longrightarrow> go_len (To16 ip) = 16"
  by (cases ip) (auto simp: To16_def go_len_def v4InV6Prefix_def)

lemma clientAddrBytes_nil_pointer:
  "parseIP lib requestIP = None \<Longrightarrow> clientAddrBytes lib requestIP = Some (replicate 16 0)"
  by (simp add: clientAddrBytes_def)

lemma clientAddrBytes_bare_address:
  assumes "SplitHostPort lib requestIP = Inl err"
  shows "clientAddrBytes lib requestIP =
           (case ParseIP lib requestIP of
              None \<Rightarrow> Some (replicate 16 0)
            | Some ip \<Rightarrow> To16 (Some ip))"
  using assms by (simp add: clientAddrBytes_def parseIP_def split: option.split)

text \<open>
  C6 at its failing input. When the address text splits into a non-empty host and a port
  and the host is not an address, \<open>parseIP\<close> returns a pointer to a nil \<open>net.IP\<close>
  instead of the nil pointer its comment promises ("Returns nil if parse fails"), the
  test \<open>clientAddr != nil\<close> in \<open>register\<close> passes, and \<open>To16\<close> of the nil address
  replaces the 16 zero bytes by a nil slice: the address handed to \<open>processC2SWrapper\<close>
  has length 0, not 16.
\<close>

theorem clientAddrBytes_unparseable_host:
  assumes "SplitHostPort lib requestIP = Inr (host, port)"
    and "host \<noteq> []"
    and "ParseIP lib host = None"
  shows "parseIP lib requestIP = Some None
         \<and> clientAddrBytes lib requestIP = None
         \<and> go_len (clientAddrBytes lib requestIP) = 0
         \<and> clientAddrBytes lib requestIP \<noteq> Some (replicate 16 0)"
  using assms
  by (simp add: clientAddrBytes_def parseIP_def To16_def go_len_def)

text \<open>The theorem at the header value \<open>foo:80\<close>, with \<open>net.SplitHostPort\<close> splitting
  it into \<open>foo\<close> and \<open>80\<close> and \<open>net.ParseIP\<close> rejecting \<open>foo\<close>, as Go's do.\<close>

theorem clientAddrBytes_unparseable_host_witness:
  "clientAddrBytes
     \<lparr> SplitHostPort = (\<lambda>a. if a = ''foo:80'' then Inr (''foo'', ''80'')
                             else Inl ''missing port in address''),
       ParseIP = (\<lambda>a. None) \<rparr>
     (getRemoteAddr
        \<lparr> Method = ''POST'', ContentLength = 40, Body = Inr [],
          XForwardedFor = ''foo:80'', RemoteAddr = ''192.0.2.7:4000'' \<rparr>) = None"
proof -
  have addr: "getRemoteAddr
        \<lparr> Method = ''POST'', ContentLength = 40, Body = Inr [],
          XForwardedFor = ''foo:80'', RemoteAddr = ''192.0.2.7:4000'' \<rparr> = ''foo:80''"
    by (simp add: getRemoteAddr_def SplitFirst_def Trim_def)
  show ?thesis
    unfolding addr
    using clientAddrBytes_unparseable_host
      [of "\<lparr> SplitHostPort = (\<lambda>a. if a = ''foo:80'' then Inr (''foo'', ''80'')
                             else Inl ''missing port in address''),
             ParseIP = (\<lambda>a. None) \<rparr>" "''foo:80''" "''foo''" "''80''"]
    by simp
qed

section \<open>Properties of setupAuth and loadNewConfig\<close>

lemma setupAuth_skip:
  "AuthType (conf p) \<noteq> ''CURVE'' \<Longrightarrow> setupAuth w p = Done p"
  by (simp add: setupAuth_def)

lemma setupAuth_Done_curve:
  assumes "AuthType (conf p) = ''CURVE''" and "setupAuth w p = Done p'"
  shows "\<exists>privkeyBytes keyBytes a2 sk.
           ReadFile w (PrivateKeyPath (conf p)) = Inr privkeyBytes
           \<and> slice_upto privkeyBytes 32 = Some keyBytes
           \<and> AuthStart w (AuthSetVerbose w (AuthVerbose (conf p)) (auth p)) = Inr a2
           \<and> ServerAuthCurve w ''*'' (Z85encode w keyBytes) (sock p) = Inr sk
           \<and> p' = p\<lparr> auth := AuthCurveAdd w ''*'' (StationPublicKeys (conf p))
                              (AuthAllow w ''*'' [] a2),
                     sock := sk,
                     calls := calls p @
                       [CallReadFile (PrivateKeyPath (conf p)),
                        CallZ85encode keyBytes,
                        CallAuthSetVerbose (AuthVerbose (conf p)),
                        CallAuthStart,
                        CallAuthAllow ''*'' [],
                        CallAuthCurveAdd ''*'' (StationPublicKeys (conf p)),
                        CallServerAuthCurve ''*'' (Z85encode w keyBytes)] \<rparr>"
  using assms
  by (auto simp: setupAuth_def Let_def split: sum.splits option.splits)




text \<open>The code removes nothing itself: whatever property of the authentication state
  the functions of zmq4 that it calls all keep, a reload keeps.\<close>

lemma setupAuth_keeps:
  fixes p p' :: "('a, 's) process"
  assumes run: "setupAuth w p = Done p'"
    and before: "K (auth p)"
    and verbose: "\<And>v a. K a \<Longrightarrow> K (AuthSetVerbose w v a)"
    and start: "\<And>a a'. K a \<Longrightarrow> AuthStart w a = Inr a' \<Longrightarrow> K a'"
    and allow: "\<And>d xs a. K a \<Longrightarrow> K (AuthAllow w d xs a)"
    and add: "\<And>d ks a. K a \<Longrightarrow> K (AuthCurveAdd w d ks a)"
  shows "K (auth p')"
proof (cases "AuthType (conf p) = ''CURVE''")
  case True
  from setupAuth_Done_curve [OF True run] obtain a2 where
    a2: "AuthStart w (AuthSetVerbose w (AuthVerbose (conf p)) (auth p)) = Inr a2"
    and res: "auth p' =
                AuthCurveAdd w ''*'' (StationPublicKeys (conf p)) (AuthAllow w ''*'' [] a2)"
    by auto
  from before have "K (AuthSetVerbose w (AuthVerbose (conf p)) (auth p))"
    by (rule verbose)
  then have "K a2" using a2 by (rule start)
  then show ?thesis unfolding res by (intro add allow)
next
  case False
  with run have "p' = p" by (simp add: setupAuth_skip)
  with before show ?thesis by simp
qed

lemma loadNewConfig_keeps:
  fixes p p' :: "('a, 's) process"
  assumes run: "loadNewConfig w p = Done p'"
    and before: "K (auth p)"
    and stop: "\<And>a. K a \<Longrightarrow> K (AuthStop w a)"
    and verbose: "\<And>v a. K a \<Longrightarrow> K (AuthSetVerbose w v a)"
    and start: "\<And>a a'. K a \<Longrightarrow> AuthStart w a = Inr a' \<Longrightarrow> K a'"
    and allow: "\<And>d xs a. K a \<Longrightarrow> K (AuthAllow w d xs a)"
    and add: "\<And>d ks a. K a \<Longrightarrow> K (AuthCurveAdd w d ks a)"
  shows "K (auth p')"
proof -
  from run obtain c where
    inner: "setupAuth w (p\<lparr> conf := c, auth := AuthStop w (auth p),
                calls := calls p @ [CallDecodeFile, CallAuthStop] \<rparr>) = Done p'"
    by (auto simp: loadNewConfig_def split: sum.splits)
  have "K (auth (p\<lparr> conf := c, auth := AuthStop w (auth p),
                calls := calls p @ [CallDecodeFile, CallAuthStop] \<rparr>))"
    using before by (simp add: stop)
  with inner show ?thesis
    by (rule setupAuth_keeps) (erule verbose start allow add, assumption?)+
qed




text \<open>With the reset that discards, a reload from \<open>CURVE\<close> to another auth type
  leaves the subsystem not installed and the socket with its earlier key: the transport
  is unauthenticated.\<close>

lemma reload_to_non_curve:
  "reloads
     [demoWorld (demoConfig ''CURVE'' [''keyA''])
        \<lparr> elems = replicate 32 1, spare = [] \<rparr>,
      demoWorld (demoConfig ''NULL'' [])
        \<lparr> elems = replicate 32 2, spare = [] \<rparr>]
     (demoProcess (demoConfig ''CURVE'' []))
   = Done \<lparr> conf = demoConfig ''NULL'' [],
            auth = \<lparr> started = False, verbose = False, allowed = [], curveKeys = [] \<rparr>,
            sock = \<lparr> curveServer = Some (''*'', EncodeToString (replicate 32 1)) \<rparr>,
            calls = [CallDecodeFile,
                     CallAuthStop,
                     CallReadFile ''/opt/conjure/privkey'',
                     CallZ85encode (replicate 32 1),
                     CallAuthSetVerbose False,
                     CallAuthStart,
                     CallAuthAllow ''*'' [],
                     CallAuthCurveAdd ''*'' [''keyA''],
                     CallServerAuthCurve ''*'' (EncodeToString (replicate 32 1)),
                     CallDecodeFile,
                     CallAuthStop] \<rparr>
   \<and> acceptsKey
       \<lparr> started = False, verbose = False, allowed = [], curveKeys = [] \<rparr>
       \<lparr> curveServer = Some (''*'', EncodeToString (replicate 32 1)) \<rparr>
       ''keyA''"
  by (simp add: loadNewConfig_def setupAuth_def slice_upto_def slice_cap_def
        zapStopDiscard_def zapSetVerbose_def zapStart_def zapAllow_def zapCurveAdd_def
        sockServerAuthCurve_def acceptsKey_def Let_def)

text \<open>
  C9. When the auth type is not \<open>CURVE\<close>, \<open>setupAuth\<close> returns with the process as it
  was: no call is made (no key file is read, the authentication subsystem is not
  started), and the configuration, the authentication state and the socket are
  unchanged.
\<close>

theorem setupAuth_noop:
  assumes "AuthType (conf p) \<noteq> ''CURVE''"
  shows "setupAuth w p = Done p
         \<and> (\<forall>p'. setupAuth w p = Done p' \<longrightarrow>
               calls p' = calls p \<and> auth p' = auth p \<and> sock p' = sock p \<and> conf p' = conf p)"
  using assms by (simp add: setupAuth_skip)

text \<open>The theorem at auth type \<open>NULL\<close>.\<close>

theorem setupAuth_noop_witness:
  "setupAuth
     (demoWorld (demoConfig ''NULL'' [''keyA'']) \<lparr> elems = replicate 32 1, spare = [] \<rparr>)
     (demoProcess (demoConfig ''NULL'' [''keyA'']))
   = Done (demoProcess (demoConfig ''NULL'' [''keyA'']))"
  using setupAuth_noop
    [of "demoProcess (demoConfig ''NULL'' [''keyA''])"
        "demoWorld (demoConfig ''NULL'' [''keyA'']) \<lparr> elems = replicate 32 1, spare = [] \<rparr>"]
  by simp





end
